theory Spec2Isabelle
  imports Main
begin

section \<open>The snippet \<open>src/iife/foo.js\<close>\<close>

text \<open>
  The repository's only code is \<open>src/iife/foo.js\<close>, lines 1 to 11:
  \<^verbatim>\<open>
  function getUrl () {
    return "/todos";
  }

  // `window.fetch` won't be standardized for decades
  function createTodo(title) {
    const req = new XMLHttpRequest();
    req.addEventListener("load", reqListener);
    req.open("POST", getUrl() + "?title=" + title);
    req.send();
  }
  \<close>
  It is modelled twice: as a syntax tree, for the statements about the shape of the file
  (what it declares, how it is wrapped), and as two state-passing functions, for the
  statements about what a call does.
\<close>

subsection \<open>Syntax\<close>

text \<open>
  The fragment of JavaScript the file is written in, with function expressions and
  \<open>try\<close>/\<open>catch\<close> added: the first is what an immediately invoked function expression
  is made of, the second is what failure handling would be made of.
\<close>

datatype expr =
    StrLit string
  | Ident string
  | Call expr "expr list"
  | New expr "expr list"
  | Member expr string
  | Plus expr expr
  | FunExpr "string list" "stmt list"
and stmt =
    FunDecl string "string list" "stmt list"
  | ConstDecl string expr
  | ExprStmt expr
  | Return expr
  | Try "stmt list" string "stmt list"

definition getUrl_decl :: stmt where
  "getUrl_decl = FunDecl ''getUrl'' [] [Return (StrLit ''/todos'')]"

definition createTodo_body :: "stmt list" where
  "createTodo_body =
     [ConstDecl ''req'' (New (Ident ''XMLHttpRequest'') []),
      ExprStmt (Call (Member (Ident ''req'') ''addEventListener'')
                  [StrLit ''load'', Ident ''reqListener'']),
      ExprStmt (Call (Member (Ident ''req'') ''open'')
                  [StrLit ''POST'',
                   Plus (Plus (Call (Ident ''getUrl'') []) (StrLit ''?title='')) (Ident ''title'')]),
      ExprStmt (Call (Member (Ident ''req'') ''send'') [])]"

definition createTodo_decl :: stmt where
  "createTodo_decl = FunDecl ''createTodo'' [''title''] createTodo_body"

definition foo_js :: "stmt list" where
  "foo_js = [getUrl_decl, createTodo_decl]"

text \<open>
  The names a script binds in the global scope: its top-level function and \<open>const\<close>
  declarations. A function declaration inside a \<open>try\<close> block of a script is hoisted
  to the enclosing scope as well; a \<open>const\<close> there is local to the block.
\<close>

fun hoisted :: "stmt \<Rightarrow> string list" where
  "hoisted (FunDecl f ps body) = [f]"
| "hoisted (Try b x h) = concat (map hoisted b) @ concat (map hoisted h)"
| "hoisted (ConstDecl x e) = []"
| "hoisted (ExprStmt e) = []"
| "hoisted (Return e) = []"

fun top_level :: "stmt \<Rightarrow> string list" where
  "top_level (ConstDecl x e) = [x]"
| "top_level s = hoisted s"

definition global_bindings :: "stmt list \<Rightarrow> string list" where
  "global_bindings prog = concat (map top_level prog)"

text \<open>
  An immediately invoked function expression is a call whose callee is a function
  expression. A script is wrapped in one when each of its top-level statements is such a
  call, either alone or as the initialiser of the one value it exports
  (\<open>var todo = (function() { ... })()\<close>).
\<close>

fun is_iife :: "expr \<Rightarrow> bool" where
  "is_iife (Call (FunExpr ps body) args) = True"
| "is_iife e = False"

fun iife_stmt :: "stmt \<Rightarrow> bool" where
  "iife_stmt (ExprStmt e) = is_iife e"
| "iife_stmt (ConstDecl x e) = is_iife e"
| "iife_stmt s = False"

definition iife_wrapped :: "stmt list \<Rightarrow> bool" where
  "iife_wrapped prog = (prog \<noteq> [] \<and> list_all iife_stmt prog)"

text \<open>Function declarations, and the parameters of one.\<close>

fun is_fun_decl :: "stmt \<Rightarrow> bool" where
  "is_fun_decl (FunDecl f ps body) = True"
| "is_fun_decl s = False"

fun params :: "stmt \<Rightarrow> string list" where
  "params (FunDecl f ps body) = ps"
| "params s = []"

text \<open>
  Every function the text defines, at any depth: the names of the function declarations,
  and the number of (anonymous) function expressions.
\<close>

fun fun_decls_expr :: "expr \<Rightarrow> string list"
  and fun_decls :: "stmt \<Rightarrow> string list" where
  "fun_decls_expr (StrLit s) = []"
| "fun_decls_expr (Ident x) = []"
| "fun_decls_expr (Call f args) = fun_decls_expr f @ concat (map fun_decls_expr args)"
| "fun_decls_expr (New c args) = fun_decls_expr c @ concat (map fun_decls_expr args)"
| "fun_decls_expr (Member e m) = fun_decls_expr e"
| "fun_decls_expr (Plus a b) = fun_decls_expr a @ fun_decls_expr b"
| "fun_decls_expr (FunExpr ps body) = concat (map fun_decls body)"
| "fun_decls (FunDecl f ps body) = f # concat (map fun_decls body)"
| "fun_decls (ConstDecl x e) = fun_decls_expr e"
| "fun_decls (ExprStmt e) = fun_decls_expr e"
| "fun_decls (Return e) = fun_decls_expr e"
| "fun_decls (Try b x h) = concat (map fun_decls b) @ concat (map fun_decls h)"

fun fun_exprs_expr :: "expr \<Rightarrow> nat"
  and fun_exprs :: "stmt \<Rightarrow> nat" where
  "fun_exprs_expr (StrLit s) = 0"
| "fun_exprs_expr (Ident x) = 0"
| "fun_exprs_expr (Call f args) = fun_exprs_expr f + sum_list (map fun_exprs_expr args)"
| "fun_exprs_expr (New c args) = fun_exprs_expr c + sum_list (map fun_exprs_expr args)"
| "fun_exprs_expr (Member e m) = fun_exprs_expr e"
| "fun_exprs_expr (Plus a b) = fun_exprs_expr a + fun_exprs_expr b"
| "fun_exprs_expr (FunExpr ps body) = Suc (sum_list (map fun_exprs body))"
| "fun_exprs (FunDecl f ps body) = sum_list (map fun_exprs body)"
| "fun_exprs (ConstDecl x e) = fun_exprs_expr e"
| "fun_exprs (ExprStmt e) = fun_exprs_expr e"
| "fun_exprs (Return e) = fun_exprs_expr e"
| "fun_exprs (Try b x h) = sum_list (map fun_exprs b) + sum_list (map fun_exprs h)"

text \<open>
  Every name the text binds, at any depth (functions, parameters, constants, the
  parameter of a \<open>catch\<close>), and every identifier it refers to.
\<close>

fun declared_expr :: "expr \<Rightarrow> string list"
  and declared :: "stmt \<Rightarrow> string list" where
  "declared_expr (StrLit s) = []"
| "declared_expr (Ident x) = []"
| "declared_expr (Call f args) = declared_expr f @ concat (map declared_expr args)"
| "declared_expr (New c args) = declared_expr c @ concat (map declared_expr args)"
| "declared_expr (Member e m) = declared_expr e"
| "declared_expr (Plus a b) = declared_expr a @ declared_expr b"
| "declared_expr (FunExpr ps body) = ps @ concat (map declared body)"
| "declared (FunDecl f ps body) = f # ps @ concat (map declared body)"
| "declared (ConstDecl x e) = x # declared_expr e"
| "declared (ExprStmt e) = declared_expr e"
| "declared (Return e) = declared_expr e"
| "declared (Try b x h) = concat (map declared b) @ x # concat (map declared h)"

fun idents_expr :: "expr \<Rightarrow> string list"
  and idents :: "stmt \<Rightarrow> string list" where
  "idents_expr (StrLit s) = []"
| "idents_expr (Ident x) = [x]"
| "idents_expr (Call f args) = idents_expr f @ concat (map idents_expr args)"
| "idents_expr (New c args) = idents_expr c @ concat (map idents_expr args)"
| "idents_expr (Member e m) = idents_expr e"
| "idents_expr (Plus a b) = idents_expr a @ idents_expr b"
| "idents_expr (FunExpr ps body) = concat (map idents body)"
| "idents (FunDecl f ps body) = concat (map idents body)"
| "idents (ConstDecl x e) = idents_expr e"
| "idents (ExprStmt e) = idents_expr e"
| "idents (Return e) = idents_expr e"
| "idents (Try b x h) = concat (map idents b) @ concat (map idents h)"

text \<open>Whether a statement contains a \<open>try\<close>/\<open>catch\<close>, at any depth.\<close>

fun catches_expr :: "expr \<Rightarrow> bool"
  and catches :: "stmt \<Rightarrow> bool" where
  "catches_expr (StrLit s) = False"
| "catches_expr (Ident x) = False"
| "catches_expr (Call f args) = (catches_expr f \<or> list_ex catches_expr args)"
| "catches_expr (New c args) = (catches_expr c \<or> list_ex catches_expr args)"
| "catches_expr (Member e m) = catches_expr e"
| "catches_expr (Plus a b) = (catches_expr a \<or> catches_expr b)"
| "catches_expr (FunExpr ps body) = list_ex catches body"
| "catches (FunDecl f ps body) = list_ex catches body"
| "catches (ConstDecl x e) = catches_expr e"
| "catches (ExprStmt e) = catches_expr e"
| "catches (Return e) = catches_expr e"
| "catches (Try b x h) = True"

subsection \<open>Behaviour\<close>

text \<open>
  The file runs as a script in a browser, beside other scripts that share its global
  scope. Line 7 constructs the browser's \<open>XMLHttpRequest\<close>. The two other names that
  \<open>createTodo\<close> reads from the global scope are looked up there when the line that
  reads them runs: \<open>reqListener\<close> on line 8, which the file does not declare, and
  \<open>getUrl\<close> on line 9, which the file declares and any other script can assign
  again. A lookup that finds no binding throws a \<open>ReferenceError\<close>.

  Values of JavaScript are modelled as far as the file can tell them apart. A number is
  held as the string it converts to. \<open>JGetUrl\<close> is the function that lines 1 to 3
  declare. Any other object, the functions of other scripts among them, is given by what
  the file can do with it: what a call of it with no argument completes with, when it can
  be called at all, and what its conversion to a string completes with. Code of other
  scripts that runs inside a call of \<open>createTodo\<close> is so taken to return or to throw
  without touching the global scope or a request object.
\<close>

datatype error =
    ReferenceError string
  | TypeError
  | SyntaxError
  | InvalidStateError
  | Thrown string

datatype jsval =
    JUndefined
  | JNull
  | JBool bool
  | JNumber string
  | JString string
  | JSymbol
  | JGetUrl
  | JObject "(error + jsval) option" "error + string"

fun is_object :: "jsval \<Rightarrow> bool" where
  "is_object JGetUrl = True"
| "is_object (JObject c str) = True"
| "is_object v = False"

text \<open>
  The browser keeps, for each request object, the calls that were made on it and
  returned, in order. The state is the global scope, the request objects constructed so
  far, oldest first, and the strings that the browser can resolve to a URL against the
  address of the page. Of the two names the file binds, the global scope of the model
  holds \<open>getUrl\<close>; nothing in the file reads \<open>createTodo\<close>.
\<close>

datatype xhr_call = AddEventListener string jsval | Open string string | Send

record state =
  globals :: "string \<rightharpoonup> jsval"
  requests :: "xhr_call list list"
  parses :: "string \<Rightarrow> bool"

definition resolve :: "state \<Rightarrow> string \<Rightarrow> error + jsval" where
  "resolve s x = (case globals s x of None \<Rightarrow> Inl (ReferenceError x) | Some v \<Rightarrow> Inr v)"

text \<open>Lines 1 to 3, and the text of the function, which is what it converts to.\<close>

definition getUrl :: "state \<Rightarrow> string \<times> state" where
  "getUrl s = (''/todos'', s)"

definition getUrl_source :: string where
  "getUrl_source =
     ''function getUrl () {'' @ [CHR 0x0A]
     @ ''  return '' @ [CHR 0x22] @ ''/todos'' @ [CHR 0x22] @ '';'' @ [CHR 0x0A]
     @ ''}''"

text \<open>
  A call with no argument, \<open>f()\<close>: a value that is not a function cannot be called.
\<close>

fun call :: "jsval \<Rightarrow> state \<Rightarrow> (error + jsval) \<times> state" where
  "call JGetUrl s = (let (url, s') = getUrl s in (Inr (JString url), s'))"
| "call (JObject (Some c) str) s = (c, s)"
| "call v s = (Inl TypeError, s)"

text \<open>
  The conversion that \<open>+\<close> applies to an operand when the other one is a string. A
  symbol does not convert.
\<close>

fun to_string :: "jsval \<Rightarrow> error + string" where
  "to_string JUndefined = Inr ''undefined''"
| "to_string JNull = Inr ''null''"
| "to_string (JBool b) = Inr (if b then ''true'' else ''false'')"
| "to_string (JNumber digits) = Inr digits"
| "to_string (JString str) = Inr str"
| "to_string JSymbol = Inl TypeError"
| "to_string JGetUrl = Inr getUrl_source"
| "to_string (JObject c str) = str"

text \<open>\<open>new XMLHttpRequest()\<close>: a fresh request object, on which nothing has been called.\<close>

definition new_XMLHttpRequest :: "state \<Rightarrow> nat \<times> state" where
  "new_XMLHttpRequest s = (length (requests s), s\<lparr>requests := requests s @ [[]]\<rparr>)"

definition calls_on :: "state \<Rightarrow> nat \<Rightarrow> xhr_call list" where
  "calls_on s r = (if r < length (requests s) then requests s ! r else [])"

definition record_call :: "nat \<Rightarrow> xhr_call \<Rightarrow> state \<Rightarrow> state" where
  "record_call r c s =
     (if r < length (requests s)
      then s\<lparr>requests := (requests s)[r := requests s ! r @ [c]]\<rparr>
      else s)"

text \<open>
  \<open>req.addEventListener(ev, l)\<close>: the browser takes an object, or \<open>null\<close> or
  \<open>undefined\<close> in its place, and throws a \<open>TypeError\<close> for any other value.
\<close>

fun listener_accepted :: "jsval \<Rightarrow> bool" where
  "listener_accepted JUndefined = True"
| "listener_accepted JNull = True"
| "listener_accepted v = is_object v"

definition addEventListener :: "nat \<Rightarrow> string \<Rightarrow> jsval \<Rightarrow> state \<Rightarrow> (error + unit) \<times> state" where
  "addEventListener r ev l s =
     (if listener_accepted l then (Inr (), record_call r (AddEventListener ev l) s)
      else (Inl TypeError, s))"

text \<open>
  \<open>req.open("POST", url)\<close>: the browser throws a \<open>SyntaxError\<close> for a string it
  cannot resolve to a URL.
\<close>

definition open_POST :: "nat \<Rightarrow> string \<Rightarrow> state \<Rightarrow> (error + unit) \<times> state" where
  "open_POST r url s =
     (if parses s url then (Inr (), record_call r (Open ''POST'' url) s)
      else (Inl SyntaxError, s))"

text \<open>
  \<open>req.send()\<close>: the browser throws an \<open>InvalidStateError\<close> unless the request has
  been opened and not been sent since.
\<close>

fun after :: "xhr_call \<Rightarrow> bool \<Rightarrow> bool" where
  "after (Open m url) opened = True"
| "after Send opened = False"
| "after (AddEventListener ev l) opened = opened"

definition sendable :: "xhr_call list \<Rightarrow> bool" where
  "sendable cs = fold after cs False"

definition send :: "nat \<Rightarrow> state \<Rightarrow> (error + unit) \<times> state" where
  "send r s =
     (if sendable (calls_on s r) then (Inr (), record_call r Send s)
      else (Inl InvalidStateError, s))"

text \<open>
  The second argument of line 9, \<open>getUrl() + "?title=" + title\<close>: the lookup of
  \<open>getUrl\<close>, the call, and the two conversions to a string, from left to right.
\<close>

definition url_argument :: "state \<Rightarrow> jsval \<Rightarrow> (error + string) \<times> state" where
  "url_argument s title =
     (case resolve s ''getUrl'' of
        Inl e \<Rightarrow> (Inl e, s)
      | Inr g \<Rightarrow>
     (case call g s of
        (Inl e, s1) \<Rightarrow> (Inl e, s1)
      | (Inr v, s1) \<Rightarrow>
     (case to_string v of
        Inl e \<Rightarrow> (Inl e, s1)
      | Inr base \<Rightarrow>
     (case to_string title of
        Inl e \<Rightarrow> (Inl e, s1)
      | Inr t \<Rightarrow> (Inr (base @ ''?title='' @ t), s1)))))"

text \<open>
  Lines 6 to 11. The arguments of a call are evaluated from left to right before the
  call is made, so the lookup of \<open>reqListener\<close> comes after the request object is
  constructed and before anything is called on it. Whatever throws ends the call there.
\<close>

definition createTodo :: "state \<Rightarrow> jsval \<Rightarrow> (error + unit) \<times> state" where
  "createTodo s title =
     (let (req, s1) = new_XMLHttpRequest s in
      case resolve s1 ''reqListener'' of
        Inl e \<Rightarrow> (Inl e, s1)
      | Inr listener \<Rightarrow>
     (case addEventListener req ''load'' listener s1 of
        (Inl e, s2) \<Rightarrow> (Inl e, s2)
      | (Inr u2, s2) \<Rightarrow>
     (case url_argument s2 title of
        (Inl e, s3) \<Rightarrow> (Inl e, s3)
      | (Inr url, s3) \<Rightarrow>
     (case open_POST req url s3 of
        (Inl e, s4) \<Rightarrow> (Inl e, s4)
      | (Inr u4, s4) \<Rightarrow>
     (case send req s4 of
        (Inl e, s5) \<Rightarrow> (Inl e, s5)
      | (Inr u5, s5) \<Rightarrow> (Inr (), s5))))))"

text \<open>A sequence of calls of \<open>createTodo\<close>, one for each title, whatever each one's outcome.\<close>

fun createTodo_each :: "state \<Rightarrow> jsval list \<Rightarrow> state" where
  "createTodo_each s [] = s"
| "createTodo_each s (title # titles) = createTodo_each (snd (createTodo s title)) titles"

text \<open>
  What was called on a request object: how often \<open>send\<close>, with what \<open>open\<close>, and the
  events it has a listener for (a call of \<open>addEventListener\<close> with \<open>null\<close> or
  \<open>undefined\<close> registers none).
\<close>

fun is_send :: "xhr_call \<Rightarrow> bool" where
  "is_send Send = True"
| "is_send c = False"

fun opened_with :: "xhr_call \<Rightarrow> (string \<times> string) list" where
  "opened_with (Open m u) = [(m, u)]"
| "opened_with c = []"

fun listens_to :: "xhr_call \<Rightarrow> string list" where
  "listens_to (AddEventListener ev l) = (if is_object l then [ev] else [])"
| "listens_to c = []"

definition sends :: "xhr_call list \<Rightarrow> nat" where
  "sends r = length (filter is_send r)"

definition opens :: "xhr_call list \<Rightarrow> (string \<times> string) list" where
  "opens r = concat (map opened_with r)"

definition listeners :: "xhr_call list \<Rightarrow> string list" where
  "listeners r = concat (map listens_to r)"

text \<open>The same, over every request object of a state.\<close>

definition all_sends :: "state \<Rightarrow> nat" where
  "all_sends s = sum_list (map sends (requests s))"

definition all_opens :: "state \<Rightarrow> (string \<times> string) list" where
  "all_opens s = concat (map opens (requests s))"

text \<open>
  States to run a call in. In \<open>bare\<close> the file is the only script of a page whose
  address every relative URL resolves against. The others differ from it in what another
  script has done: declared a function \<open>reqListener\<close>, assigned a string to
  \<open>reqListener\<close>, or assigned \<open>() => '/oops'\<close> to \<open>getUrl\<close>.
\<close>

definition bare :: state where
  "bare = \<lparr>globals = [''getUrl'' \<mapsto> JGetUrl], requests = [], parses = (\<lambda>url. True)\<rparr>"

definition reqListener_function :: jsval where
  "reqListener_function = JObject (Some (Inr JUndefined)) (Inr ''function reqListener () {}'')"

definition with_listener :: state where
  "with_listener = bare\<lparr>globals := (globals bare)(''reqListener'' \<mapsto> reqListener_function)\<rparr>"

definition with_string_listener :: state where
  "with_string_listener = bare\<lparr>globals := (globals bare)(''reqListener'' \<mapsto> JString ''cb'')\<rparr>"

definition oops_function :: jsval where
  "oops_function = JObject (Some (Inr (JString ''/oops''))) (Inr (''() => '' @ [CHR 0x27] @ ''/oops'' @ [CHR 0x27]))"

definition with_oops :: state where
  "with_oops = with_listener\<lparr>globals := (globals with_listener)(''getUrl'' \<mapsto> oops_function)\<rparr>"

section \<open>What a call does\<close>

text \<open>A call of a function leaves the state as it is, and does not depend on it.\<close>

lemma call_eq: "call g s = (fst (call g s''), s)"
  by (cases "(g, s)" rule: call.cases) (simp_all add: getUrl_def)

lemma url_argument_state: "snd (url_argument s title) = s"
proof (cases "globals s ''getUrl''")
  case None
  then show ?thesis by (simp add: url_argument_def resolve_def)
next
  case (Some g)
  obtain c where "call g s = (c, s)"
    using call_eq by blast
  with Some show ?thesis
    by (simp add: url_argument_def resolve_def split: sum.splits)
qed

lemma url_argument_result:
  assumes "globals s' = globals s"
  shows "fst (url_argument s' title) = fst (url_argument s title)"
proof (cases "globals s ''getUrl''")
  case None
  with assms show ?thesis by (simp add: url_argument_def resolve_def)
next
  case (Some g)
  obtain c where "call g s = (c, s)" and "call g s' = (c, s')"
    using call_eq [of g s s] call_eq [of g s' s] by blast
  with Some assms show ?thesis
    by (simp add: url_argument_def resolve_def split: sum.splits)
qed

text \<open>
  The five ways a call can go, each with the calls it leaves on the request object it
  constructed.
\<close>

lemma createTodo_unbound:
  assumes "globals s ''reqListener'' = None"
  shows "createTodo s title =
    (Inl (ReferenceError ''reqListener''), s\<lparr>requests := requests s @ [[]]\<rparr>)"
  using assms
  by (simp add: createTodo_def new_XMLHttpRequest_def resolve_def)

lemma createTodo_refused:
  assumes "globals s ''reqListener'' = Some l" and "\<not> listener_accepted l"
  shows "createTodo s title = (Inl TypeError, s\<lparr>requests := requests s @ [[]]\<rparr>)"
  using assms
  by (simp add: createTodo_def new_XMLHttpRequest_def resolve_def addEventListener_def)

lemma listening:
  assumes "globals s ''reqListener'' = Some l" and "listener_accepted l"
  shows "addEventListener (length (requests s)) ''load'' l (s\<lparr>requests := requests s @ [[]]\<rparr>)
    = (Inr (), s\<lparr>requests := requests s @ [[AddEventListener ''load'' l]]\<rparr>)"
  using assms by (simp add: addEventListener_def record_call_def)

lemma createTodo_url_throws:
  assumes "globals s ''reqListener'' = Some l" and "listener_accepted l"
    and "fst (url_argument s title) = Inl e"
  shows "createTodo s title =
    (Inl e, s\<lparr>requests := requests s @ [[AddEventListener ''load'' l]]\<rparr>)"
proof -
  let ?s2 = "s\<lparr>requests := requests s @ [[AddEventListener ''load'' l]]\<rparr>"
  have "fst (url_argument ?s2 title) = Inl e"
    using assms(3) url_argument_result [of ?s2 s title] by simp
  then have "url_argument ?s2 title = (Inl e, ?s2)"
    by (metis url_argument_state prod.collapse)
  then show ?thesis
    using assms(1) by (simp add: createTodo_def new_XMLHttpRequest_def resolve_def
        listening [OF assms(1,2)])
qed

lemma createTodo_url_unparsed:
  assumes "globals s ''reqListener'' = Some l" and "listener_accepted l"
    and "fst (url_argument s title) = Inr url" and "\<not> parses s url"
  shows "createTodo s title =
    (Inl SyntaxError, s\<lparr>requests := requests s @ [[AddEventListener ''load'' l]]\<rparr>)"
proof -
  let ?s2 = "s\<lparr>requests := requests s @ [[AddEventListener ''load'' l]]\<rparr>"
  have "fst (url_argument ?s2 title) = Inr url"
    using assms(3) url_argument_result [of ?s2 s title] by simp
  then have "url_argument ?s2 title = (Inr url, ?s2)"
    by (metis url_argument_state prod.collapse)
  then show ?thesis
    using assms(1,4) by (simp add: createTodo_def new_XMLHttpRequest_def resolve_def
        listening [OF assms(1,2)] open_POST_def)
qed

lemma createTodo_sent:
  assumes "globals s ''reqListener'' = Some l" and "listener_accepted l"
    and "fst (url_argument s title) = Inr url" and "parses s url"
  shows "createTodo s title =
    (Inr (), s\<lparr>requests := requests s @
       [[AddEventListener ''load'' l, Open ''POST'' url, Send]]\<rparr>)"
proof -
  let ?s2 = "s\<lparr>requests := requests s @ [[AddEventListener ''load'' l]]\<rparr>"
  have "fst (url_argument ?s2 title) = Inr url"
    using assms(3) url_argument_result [of ?s2 s title] by simp
  then have "url_argument ?s2 title = (Inr url, ?s2)"
    by (metis url_argument_state prod.collapse)
  then show ?thesis
    using assms(1,4) by (simp add: createTodo_def new_XMLHttpRequest_def resolve_def
        listening [OF assms(1,2)] open_POST_def send_def record_call_def calls_on_def
        sendable_def)
qed

lemma createTodo_outcome:
  "\<exists>res cs. createTodo s title = (res, s\<lparr>requests := requests s @ [cs]\<rparr>)"
proof (cases "globals s ''reqListener''")
  case None
  then show ?thesis using createTodo_unbound by blast
next
  case (Some l)
  show ?thesis
  proof (cases "listener_accepted l")
    case False
    with Some show ?thesis using createTodo_refused by blast
  next
    case True
    show ?thesis
    proof (cases "fst (url_argument s title)")
      case (Inl e)
      with Some True show ?thesis using createTodo_url_throws by blast
    next
      case (Inr url)
      with Some True show ?thesis
        using createTodo_url_unparsed createTodo_sent by (cases "parses s url") blast+
    qed
  qed
qed

lemma createTodo_globals: "globals (snd (createTodo s title)) = globals s"
  using createTodo_outcome [of s title] by auto

lemma createTodo_requests:
  "\<exists>cs. requests (snd (createTodo s title)) = requests s @ [cs]"
  using createTodo_outcome [of s title] by auto

lemma createTodo_each_globals: "globals (createTodo_each s titles) = globals s"
  by (induction titles arbitrary: s) (simp_all add: createTodo_globals)

lemma createTodo_each_requests:
  "take (length (requests s)) (requests (createTodo_each s titles)) = requests s"
proof (induction titles arbitrary: s)
  case Nil
  show ?case by simp
next
  case (Cons title titles)
  obtain r where r: "requests (snd (createTodo s title)) = requests s @ [r]"
    using createTodo_requests by blast
  let ?s' = "snd (createTodo s title)"
  have "take (length (requests ?s')) (requests (createTodo_each ?s' titles)) = requests ?s'"
    by (rule Cons.IH)
  then have "take (length (requests s)) (take (length (requests ?s'))
      (requests (createTodo_each ?s' titles))) = take (length (requests s)) (requests ?s')"
    by simp
  then show ?case by (simp add: r min_def)
qed

text \<open>
  A title that is a symbol does not convert to a string, and a page whose address no
  relative URL resolves against (one loaded from a \<open>data:\<close> URL) has its \<open>open\<close>
  refused: either way nothing is sent.
\<close>

lemma createTodo_symbol_title:
  "fst (createTodo with_listener JSymbol) = Inl TypeError
   \<and> all_sends (snd (createTodo with_listener JSymbol)) = 0"
proof -
  have "createTodo with_listener JSymbol = (Inl TypeError,
      with_listener\<lparr>requests := requests with_listener
        @ [[AddEventListener ''load'' reqListener_function]]\<rparr>)"
    by (rule createTodo_url_throws)
      (simp_all add: with_listener_def bare_def reqListener_function_def url_argument_def
        resolve_def getUrl_def)
  then show ?thesis
    by (simp add: with_listener_def bare_def all_sends_def sends_def)
qed

lemma createTodo_unresolved_url:
  "fst (createTodo (with_listener\<lparr>parses := (\<lambda>url. False)\<rparr>) (JString ''milk'')) = Inl SyntaxError
   \<and> all_sends (snd (createTodo (with_listener\<lparr>parses := (\<lambda>url. False)\<rparr>) (JString ''milk''))) = 0"
proof -
  let ?s = "with_listener\<lparr>parses := (\<lambda>url. False)\<rparr>"
  have "createTodo ?s (JString ''milk'') = (Inl SyntaxError,
      ?s\<lparr>requests := requests ?s @ [[AddEventListener ''load'' reqListener_function]]\<rparr>)"
    by (rule createTodo_url_unparsed [where url = "''/todos?title=milk''"])
      (simp_all add: with_listener_def bare_def reqListener_function_def url_argument_def
        resolve_def getUrl_def)
  then show ?thesis
    by (simp add: with_listener_def bare_def all_sends_def sends_def)
qed

section \<open>The shape of the file\<close>

text \<open>
  C1, as stated: the definitions of \<open>src/iife/foo.js\<close> are wrapped in an immediately
  invoked function expression, so that the names it introduces are not global bindings.
  The file is not so wrapped, and it binds global names.
\<close>

theorem foo_js_iife_counterexample:
  "\<not> iife_wrapped foo_js \<and> global_bindings foo_js \<noteq> []"
  by (simp add: iife_wrapped_def global_bindings_def foo_js_def getUrl_decl_def
      createTodo_decl_def)

text \<open>
  C1, amended: \<open>src/iife/foo.js\<close> is the example before the wrapping. None of its
  top-level statements is an immediately invoked function expression, and the two names
  it declares at top level, \<open>getUrl\<close> and \<open>createTodo\<close>, are global bindings.
\<close>

theorem foo_js_global_bindings:
  "filter iife_stmt foo_js = [] \<and> global_bindings foo_js = [''getUrl'', ''createTodo'']"
  by (simp add: global_bindings_def foo_js_def getUrl_decl_def createTodo_decl_def)

text \<open>
  C2: the code consists of exactly two functions, named \<open>getUrl\<close> and \<open>createTodo\<close>,
  and defines nothing else. Every top-level statement is a function declaration (so none
  declares a variable), the function declarations at any depth are these two, and there
  is no function expression.
\<close>

theorem foo_js_two_functions:
  "list_all is_fun_decl foo_js
   \<and> concat (map fun_decls foo_js) = [''getUrl'', ''createTodo'']
   \<and> sum_list (map fun_exprs foo_js) = 0"
  by (simp add: foo_js_def getUrl_decl_def createTodo_decl_def createTodo_body_def)

section \<open>\<open>getUrl\<close>\<close>

text \<open>
  C5: \<open>getUrl\<close> takes no arguments and returns the string \<open>"/todos"\<close> on every call;
  it leaves the state as it is, and two runs from any two states return the same value.
\<close>

theorem getUrl_todos:
  "params getUrl_decl = []
   \<and> getUrl s = (''/todos'', s)
   \<and> fst (getUrl s) = fst (getUrl s')"
  by (simp add: getUrl_decl_def getUrl_def)

text \<open>
  C4: the program holds no mutable state of its own. After any sequence of calls of
  \<open>createTodo\<close> the global scope is what it was and the request objects that existed
  before are untouched, a call of \<open>getUrl\<close> returns what it returned before, and a call
  of \<open>getUrl\<close> changes nothing, so that repeated calls are interchangeable.
\<close>

theorem createTodo_each_frame:
  "globals (createTodo_each s titles) = globals s
   \<and> take (length (requests s)) (requests (createTodo_each s titles)) = requests s
   \<and> fst (getUrl (createTodo_each s titles)) = fst (getUrl s)
   \<and> snd (getUrl s) = s
   \<and> getUrl (snd (getUrl s)) = getUrl s"
  by (simp add: createTodo_each_globals createTodo_each_requests getUrl_def)

section \<open>\<open>createTodo\<close>\<close>

text \<open>
  C3, as stated: for every title, a call of \<open>createTodo\<close> issues exactly one request.
  Where no script has bound \<open>reqListener\<close> the call throws a \<open>ReferenceError\<close>, where
  one has bound it to a string the call throws a \<open>TypeError\<close>, and either way nothing
  is sent.
\<close>

theorem createTodo_one_request_counterexample:
  "fst (createTodo bare (JString ''milk'')) = Inl (ReferenceError ''reqListener'')
   \<and> all_sends (snd (createTodo bare (JString ''milk''))) = 0
   \<and> fst (createTodo with_string_listener (JString ''milk'')) = Inl TypeError
   \<and> all_sends (snd (createTodo with_string_listener (JString ''milk''))) = 0"
proof -
  have "globals bare ''reqListener'' = None"
    by (simp add: bare_def)
  then have 1: "createTodo bare (JString ''milk'')
      = (Inl (ReferenceError ''reqListener''), bare\<lparr>requests := requests bare @ [[]]\<rparr>)"
    by (rule createTodo_unbound)
  have "globals with_string_listener ''reqListener'' = Some (JString ''cb'')"
    and "\<not> listener_accepted (JString ''cb'')"
    by (simp_all add: with_string_listener_def)
  then have 2: "createTodo with_string_listener (JString ''milk'')
      = (Inl TypeError, with_string_listener\<lparr>requests := requests with_string_listener @ [[]]\<rparr>)"
    by (rule createTodo_refused)
  show ?thesis
    unfolding 1 2 by (simp add: with_string_listener_def bare_def all_sends_def sends_def)
qed

text \<open>
  C3, amended: for every title, in a global scope where \<open>reqListener\<close> is bound to an
  object (a function, say) or to \<open>null\<close> or \<open>undefined\<close>, where the expression
  \<open>getUrl() + "?title=" + title\<close> evaluates without throwing, and on a page where the
  browser can resolve the string it evaluates to, a call of \<open>createTodo\<close> returns
  normally and issues exactly one request: it constructs one request object and calls
  \<open>send\<close> on it once. The only listener it registers is for the \<open>load\<close> event, and
  its text has no \<open>try\<close>/\<open>catch\<close>.
\<close>

theorem createTodo_one_request:
  assumes "globals s ''reqListener'' = Some l" and "listener_accepted l"
    and "fst (url_argument s title) = Inr url" and "parses s url"
  shows "fst (createTodo s title) = Inr ()
   \<and> length (requests (snd (createTodo s title))) = Suc (length (requests s))
   \<and> all_sends (snd (createTodo s title)) = Suc (all_sends s)
   \<and> sends (last (requests (snd (createTodo s title)))) = 1
   \<and> listeners (last (requests (snd (createTodo s title))))
       = (if is_object l then [''load''] else [])
   \<and> \<not> catches createTodo_decl"
  by (simp add: createTodo_sent [OF assms] all_sends_def sends_def listeners_def
      createTodo_decl_def createTodo_body_def)

theorem createTodo_one_request_witness:
  "globals with_listener ''reqListener'' = Some reqListener_function
   \<and> listener_accepted reqListener_function
   \<and> fst (url_argument with_listener (JNumber ''42'')) = Inr ''/todos?title=42''
   \<and> parses with_listener ''/todos?title=42''
   \<and> fst (createTodo with_listener (JNumber ''42'')) = Inr ()
   \<and> length (requests (snd (createTodo with_listener (JNumber ''42'')))) = 1
   \<and> all_sends (snd (createTodo with_listener (JNumber ''42''))) = 1
   \<and> sends (last (requests (snd (createTodo with_listener (JNumber ''42''))))) = 1
   \<and> listeners (last (requests (snd (createTodo with_listener (JNumber ''42''))))) = [''load'']"
proof -
  have h1: "globals with_listener ''reqListener'' = Some reqListener_function"
    by (simp add: with_listener_def)
  have h2: "listener_accepted reqListener_function"
    by (simp add: reqListener_function_def)
  have h3: "fst (url_argument with_listener (JNumber ''42'')) = Inr ''/todos?title=42''"
    by (simp add: url_argument_def resolve_def with_listener_def bare_def getUrl_def)
  have h4: "parses with_listener ''/todos?title=42''"
    by (simp add: with_listener_def bare_def)
  have "requests with_listener = []" and "all_sends with_listener = 0"
    and "is_object reqListener_function"
    by (simp_all add: with_listener_def bare_def all_sends_def reqListener_function_def)
  then show ?thesis
    using h1 h2 h3 h4 createTodo_one_request [OF h1 h2 h3 h4] by simp
qed

text \<open>
  C6, as stated: for every string title, \<open>createTodo\<close> opens its request with the
  method \<open>"POST"\<close> and the URL \<open>"/todos?title="\<close> followed by the title. Where no
  script has bound \<open>reqListener\<close>, no request is opened; and where a script has
  assigned \<open>() => '/oops'\<close> to \<open>getUrl\<close>, the URL starts with \<open>"/oops"\<close>.
\<close>

theorem createTodo_open_counterexample:
  "all_opens (snd (createTodo bare (JString ''milk''))) = []
   \<and> all_opens (snd (createTodo with_oops (JString ''milk'')))
       = [(''POST'', ''/oops?title=milk'')]"
proof -
  have "globals bare ''reqListener'' = None"
    by (simp add: bare_def)
  then have 1: "createTodo bare (JString ''milk'')
      = (Inl (ReferenceError ''reqListener''), bare\<lparr>requests := requests bare @ [[]]\<rparr>)"
    by (rule createTodo_unbound)
  have 2: "createTodo with_oops (JString ''milk'') = (Inr (),
      with_oops\<lparr>requests := requests with_oops @
        [[AddEventListener ''load'' reqListener_function,
          Open ''POST'' ''/oops?title=milk'', Send]]\<rparr>)"
    by (rule createTodo_sent)
      (simp_all add: with_oops_def with_listener_def bare_def reqListener_function_def
        oops_function_def url_argument_def resolve_def)
  show ?thesis
    unfolding 1 2 by (simp add: with_oops_def with_listener_def bare_def all_opens_def opens_def)
qed

text \<open>
  C6, amended: for every string title, in a global scope where \<open>reqListener\<close> is bound
  to an object or to \<open>null\<close> or \<open>undefined\<close> and where a call of what \<open>getUrl\<close> is
  bound to returns a value that converts to a string, and on a page where the browser can
  resolve the URL, \<open>createTodo\<close> opens its request once, with the method \<open>"POST"\<close>
  and the URL that is the result of \<open>getUrl()\<close>, then \<open>"?title="\<close>, then the title
  as it is, with nothing encoded. Where \<open>getUrl\<close> is still the function the file
  declares, that URL is \<open>"/todos?title="\<close> followed by the title.
\<close>

theorem createTodo_open:
  assumes "globals s ''reqListener'' = Some l" and "listener_accepted l"
    and "globals s ''getUrl'' = Some g" and "fst (call g s) = Inr v"
    and "to_string v = Inr base"
    and "parses s (base @ ''?title='' @ title)"
  shows "opens (last (requests (snd (createTodo s (JString title)))))
           = [(''POST'', base @ ''?title='' @ title)]
   \<and> (g = JGetUrl \<longrightarrow>
        base = fst (getUrl s) \<and> base @ ''?title='' @ title = ''/todos?title='' @ title)"
proof -
  obtain s' where "call g s = (Inr v, s')"
    using assms(4) by (metis prod.collapse)
  then have "fst (url_argument s (JString title)) = Inr (base @ ''?title='' @ title)"
    using assms(3,5) by (simp add: url_argument_def resolve_def)
  then have "createTodo s (JString title) = (Inr (), s\<lparr>requests := requests s @
      [[AddEventListener ''load'' l, Open ''POST'' (base @ ''?title='' @ title), Send]]\<rparr>)"
    using assms(1,2,6) by (simp add: createTodo_sent)
  moreover have "g = JGetUrl \<longrightarrow> base = ''/todos''"
    using assms(4,5) by (auto simp: getUrl_def)
  ultimately show ?thesis
    by (simp add: opens_def getUrl_def)
qed

theorem createTodo_open_witness:
  "globals with_listener ''reqListener'' = Some reqListener_function
   \<and> listener_accepted reqListener_function
   \<and> globals with_listener ''getUrl'' = Some JGetUrl
   \<and> fst (call JGetUrl with_listener) = Inr (JString ''/todos'')
   \<and> to_string (JString ''/todos'') = Inr ''/todos''
   \<and> parses with_listener (''/todos'' @ ''?title='' @ ''a&b#c'')
   \<and> opens (last (requests (snd (createTodo with_listener (JString ''a&b#c'')))))
       = [(''POST'', ''/todos?title=a&b#c'')]"
proof -
  have h1: "globals with_listener ''reqListener'' = Some reqListener_function"
    by (simp add: with_listener_def)
  have h2: "listener_accepted reqListener_function"
    by (simp add: reqListener_function_def)
  have h3: "globals with_listener ''getUrl'' = Some JGetUrl"
    by (simp add: with_listener_def bare_def)
  have h4: "fst (call JGetUrl with_listener) = Inr (JString ''/todos'')"
    by (simp add: getUrl_def)
  have h5: "to_string (JString ''/todos'') = Inr ''/todos''"
    by simp
  have h6: "parses with_listener (''/todos'' @ ''?title='' @ ''a&b#c'')"
    by (simp add: with_listener_def bare_def)
  show ?thesis
    using h1 h2 h3 h4 h5 h6 createTodo_open [OF h1 h2 h3 h4 h5 h6] by simp
qed

text \<open>
  C7: \<open>reqListener\<close>, which \<open>createTodo\<close> uses, is bound nowhere in the file. So for
  every title, in a global scope with no binding of \<open>reqListener\<close>, a call of
  \<open>createTodo\<close> throws a \<open>ReferenceError\<close> with nothing called on the request object
  it constructed: no request is opened or sent.
\<close>

theorem createTodo_ReferenceError:
  assumes "globals s ''reqListener'' = None"
  shows "''reqListener'' \<in> set (idents createTodo_decl)
   \<and> ''reqListener'' \<notin> set (concat (map declared foo_js))
   \<and> fst (createTodo s title) = Inl (ReferenceError ''reqListener'')
   \<and> requests (snd (createTodo s title)) = requests s @ [[]]
   \<and> all_opens (snd (createTodo s title)) = all_opens s
   \<and> all_sends (snd (createTodo s title)) = all_sends s"
  by (simp add: createTodo_unbound [OF assms] all_opens_def all_sends_def opens_def sends_def
      foo_js_def getUrl_decl_def createTodo_decl_def createTodo_body_def)

theorem createTodo_ReferenceError_witness:
  "globals bare ''reqListener'' = None
   \<and> fst (createTodo bare (JString ''milk'')) = Inl (ReferenceError ''reqListener'')
   \<and> requests (snd (createTodo bare (JString ''milk''))) = [[]]
   \<and> all_opens (snd (createTodo bare (JString ''milk''))) = []
   \<and> all_sends (snd (createTodo bare (JString ''milk''))) = 0"
proof -
  have h: "globals bare ''reqListener'' = None"
    by (simp add: bare_def)
  have "requests bare = []" and "all_opens bare = []" and "all_sends bare = 0"
    by (simp_all add: bare_def all_opens_def all_sends_def)
  then show ?thesis
    using h createTodo_ReferenceError [OF h, of "JString ''milk''"] by simp
qed

end
